theory Spec2Isabelle
  imports Complex_Main
begin

section \<open>Values shared by the whole HUD\<close>

text \<open>
  The program is one Python class, \<open>CyberneticARHUD\<close>. Its methods are embedded as
  HOL functions that take the fields they read and return the fields they write.
  Python integers are \<open>int\<close>. Python floats are embedded as \<open>real\<close>, with the
  order and the arithmetic of the exact numbers, except in \<open>draw_progress_bar\<close>,
  where the column that is painted depends on the rounding of one product: there the
  float is a \<open>pyfloat\<close> and the product is rounded as a double.
\<close>

datatype py_error = IndexError | ValueError | OverflowError | Cv2Error

text \<open>\<open>xs[i]\<close> for a literal index \<open>i \<ge> 0\<close>: Python raises IndexError out of range.\<close>

definition getitem :: "'a list \<Rightarrow> nat \<Rightarrow> py_error + 'a" where
  "getitem xs i = (if i < length xs then Inr (xs ! i) else Inl IndexError)"

text \<open>\<open>int(r)\<close> on a float truncates towards zero.\<close>

definition py_int :: "real \<Rightarrow> int" where
  "py_int r = (if 0 \<le> r then \<lfloor>r\<rfloor> else \<lceil>r\<rceil>)"

section \<open>Doubles\<close>

text \<open>
  A Python float is an IEEE double: a finite value, an infinity or NaN. The result
  of an operation on finite values is its exact result rounded to the nearest double,
  ties to the even significand. \<open>rne\<close> rounds a real to the nearest integer, ties
  to even; \<open>ulp_exp\<close> is the exponent of the spacing of the doubles around a
  number (53 significant bits, subnormal below \<open>2^-1022\<close>); a rounded result of
  magnitude \<open>2^1024\<close> or more is an infinity.
\<close>

datatype pyfloat = Finite real | PosInf | NegInf | NaN

definition rne :: "real \<Rightarrow> int" where
  "rne v = (let f = \<lfloor>v\<rfloor>; d = v - of_int f
            in if d < 1 / 2 then f else if 1 / 2 < d then f + 1
               else if even f then f else f + 1)"

definition ulp_exp :: "real \<Rightarrow> int" where
  "ulp_exp r = max (\<lfloor>log 2 \<bar>r\<bar>\<rfloor> - 52) (- 1074)"

definition round_double :: "real \<Rightarrow> real" where
  "round_double r =
     (if r = 0 then 0
      else real_of_int (rne (r / 2 powi ulp_exp r)) * 2 powi ulp_exp r)"

definition to_double :: "real \<Rightarrow> pyfloat" where
  "to_double r =
     (let v = round_double r
      in if 2 ^ 1024 \<le> v then PosInf else if v \<le> - (2 ^ 1024) then NegInf else Finite v)"

text \<open>
  \<open>float(n)\<close>, the conversion that \<open>n * f\<close> applies to an integer operand: it
  rounds, and raises OverflowError when the integer is beyond the doubles.
\<close>

definition float_of_int :: "int \<Rightarrow> py_error + real" where
  "float_of_int n =
     (case to_double (real_of_int n) of Finite v \<Rightarrow> Inr v | _ \<Rightarrow> Inl OverflowError)"

text \<open>The product of a finite double and a float.\<close>

fun float_mul :: "real \<Rightarrow> pyfloat \<Rightarrow> pyfloat" where
  "float_mul a (Finite b) = to_double (a * b)"
| "float_mul a PosInf = (if a = 0 then NaN else if 0 < a then PosInf else NegInf)"
| "float_mul a NegInf = (if a = 0 then NaN else if 0 < a then NegInf else PosInf)"
| "float_mul a NaN = NaN"

text \<open>
  \<open>int(f)\<close> on a float: truncation towards zero of a finite value, OverflowError
  on an infinity, ValueError on NaN.
\<close>

fun int_of_float :: "pyfloat \<Rightarrow> py_error + int" where
  "int_of_float (Finite r) = Inr (py_int r)"
| "int_of_float PosInf = Inl OverflowError"
| "int_of_float NegInf = Inl OverflowError"
| "int_of_float NaN = Inl ValueError"

section \<open>Gesture classifier\<close>

text \<open>
  A landmark is a MediaPipe point; the classifier reads only its \<open>x\<close> and \<open>y\<close>.
  The labels are the string literals returned by \<open>recognize_gesture\<close>, and
  \<open>NoHand\<close> is the \<open>"no_hand"\<close> that \<open>process_hands\<close> starts from.
\<close>

record landmark =
  lm_x :: real
  lm_y :: real

datatype gesture =
  Fist | OpenPalm | Peace | ThumbsUp | ThumbsDown | Pointing | Ok | Rock | Unknown | NoHand

definition is_finger_extended :: "landmark \<Rightarrow> landmark \<Rightarrow> bool" where
  "is_finger_extended tip pip = (lm_y tip < lm_y pip)"

definition calculate_distance :: "landmark \<Rightarrow> landmark \<Rightarrow> real" where
  "calculate_distance point1 point2 =
     sqrt ((lm_x point1 - lm_x point2)\<^sup>2 + (lm_y point1 - lm_y point2)\<^sup>2)"

text \<open>
  The generator body \<open>is_finger_extended(landmarks[tip], landmarks[tip-2])\<close> of the
  \<open>any\<close> and \<open>all\<close> calls. It is only evaluated after \<open>landmarks[20]\<close> has been
  read, and every index it uses is at most 20, so the reads are in range.
\<close>

definition tip_extended :: "landmark list \<Rightarrow> nat \<Rightarrow> bool" where
  "tip_extended landmarks tip = is_finger_extended (landmarks ! tip) (landmarks ! (tip - 2))"

text \<open>
  The \<open>if\<close>/\<open>elif\<close> chain of \<open>recognize_gesture\<close>, in the order of the source;
  \<open>list_ex\<close> is \<open>any\<close> and \<open>list_all\<close> is \<open>all\<close>.
\<close>

definition gesture_rules ::
  "landmark list \<Rightarrow> landmark \<Rightarrow> landmark \<Rightarrow> landmark \<Rightarrow> landmark \<Rightarrow> landmark \<Rightarrow> gesture" where
  "gesture_rules landmarks thumb_tip index_tip middle_tip ring_tip pinky_tip =
     (if is_finger_extended index_tip (landmarks ! 6) \<and>
         is_finger_extended middle_tip (landmarks ! 10) \<and>
         \<not> is_finger_extended ring_tip (landmarks ! 14) \<and>
         \<not> is_finger_extended pinky_tip (landmarks ! 18)
      then Peace
      else if is_finger_extended thumb_tip (landmarks ! 3) \<and>
         \<not> list_ex (tip_extended landmarks) [8, 12, 16, 20]
      then ThumbsUp
      else if \<not> is_finger_extended thumb_tip (landmarks ! 3) \<and>
         \<not> list_ex (tip_extended landmarks) [8, 12, 16, 20]
      then ThumbsDown
      else if list_all (\<lambda>tip. \<not> tip_extended landmarks tip) [8, 12, 16, 20]
      then Fist
      else if list_all (tip_extended landmarks) [8, 12, 16, 20]
      then OpenPalm
      else if is_finger_extended index_tip (landmarks ! 6) \<and>
         \<not> list_ex (tip_extended landmarks) [12, 16, 20]
      then Pointing
      else if calculate_distance thumb_tip index_tip < 5 / 100 \<and>
         list_all (tip_extended landmarks) [12, 16, 20]
      then Ok
      else if is_finger_extended index_tip (landmarks ! 6) \<and>
         is_finger_extended pinky_tip (landmarks ! 18) \<and>
         \<not> list_ex (tip_extended landmarks) [12, 16]
      then Rock
      else Unknown)"

text \<open>
  \<open>recognize_gesture\<close>: the guard \<open>if not landmarks\<close>, then the five unconditional
  reads of the finger tips, each of which raises IndexError on a short sequence, then
  the rules.
\<close>

definition recognize_gesture :: "landmark list \<Rightarrow> py_error + gesture" where
  "recognize_gesture landmarks =
     (if landmarks = [] then Inr Unknown
      else case getitem landmarks 4 of Inl e \<Rightarrow> Inl e | Inr thumb_tip \<Rightarrow>
           (case getitem landmarks 8 of Inl e \<Rightarrow> Inl e | Inr index_tip \<Rightarrow>
           (case getitem landmarks 12 of Inl e \<Rightarrow> Inl e | Inr middle_tip \<Rightarrow>
           (case getitem landmarks 16 of Inl e \<Rightarrow> Inl e | Inr ring_tip \<Rightarrow>
           (case getitem landmarks 20 of Inl e \<Rightarrow> Inl e | Inr pinky_tip \<Rightarrow>
              Inr (gesture_rules landmarks thumb_tip index_tip middle_tip ring_tip pinky_tip))))))"

text \<open>
  A hand given by the \<open>y\<close> of the ten points the rules compare (thumb IP and tip, then
  PIP and tip of index, middle, ring and pinky) and by the position of the thumb tip
  and of the index tip; every other point is at the origin.
\<close>

definition pt :: "real \<Rightarrow> real \<Rightarrow> landmark" where
  "pt a b = \<lparr>lm_x = a, lm_y = b\<rparr>"

definition mk_hand :: "real \<Rightarrow> real \<Rightarrow> real \<Rightarrow> real \<Rightarrow> real \<Rightarrow> real \<Rightarrow> real \<Rightarrow> real \<Rightarrow> real \<Rightarrow> real
    \<Rightarrow> landmark list" where
  "mk_hand t3 t4 i6 i8 m10 m12 r14 r16 p18 p20 =
     [pt 0 0, pt 0 0, pt 0 0, pt 0 t3, pt 0 t4,
      pt 0 0, pt 0 i6, pt 0 0, pt 0 i8,
      pt 0 0, pt 0 m10, pt 0 0, pt 0 m12,
      pt 0 0, pt 0 r14, pt 0 0, pt 0 r16,
      pt 0 0, pt 0 p18, pt 0 0, pt 0 p20]"

text \<open>Index and middle raised, ring and pinky curled.\<close>

definition peace_hand :: "landmark list" where
  "peace_hand = mk_hand (1/2) (1/2) (1/2) (3/10) (1/2) (3/10) (1/2) (7/10) (1/2) (7/10)"

text \<open>All four fingers raised, thumb tip on the index tip.\<close>

definition pinch_palm_hand :: "landmark list" where
  "pinch_palm_hand = mk_hand (1/2) (3/10) (1/2) (3/10) (1/2) (3/10) (1/2) (3/10) (1/2) (3/10)"


text \<open>Everything curled, the thumb included.\<close>

definition closed_hand :: "landmark list" where
  "closed_hand = mk_hand (1/2) (7/10) (1/2) (7/10) (1/2) (7/10) (1/2) (7/10) (1/2) (7/10)"

section \<open>Frames\<close>

text \<open>
  A frame is a numpy image. The embedding keeps its shape and, in drawing order, what
  has been drawn onto it: each entry records the anchor and size of the region and
  the values that the drawing shows (numbers put into the text lines, angles and
  positions of the graphics, colours chosen from the state). A time and an altitude
  are recorded as the text shows them, to the second and to the metre. Glyphs and
  anti-aliasing are not represented.
\<close>

type_synonym colour = "int \<times> int \<times> int"

datatype shown = Num int | Flt real | Str string | Col colour

datatype draw_op =
    HandSkeleton "landmark list"
  | GestureText gesture
  | Blit string int int int int "shown list"
  | Overlay string "shown list"

record frame =
  fr_height :: int
  fr_width :: int
  drawn :: "draw_op list"

text \<open>How many indices the slice \<open>a[start:stop]\<close> selects on an axis of length \<open>n\<close>.\<close>

definition slice_len :: "int \<Rightarrow> int \<Rightarrow> int \<Rightarrow> int" where
  "slice_len n start stop =
     (let clip = (\<lambda>i. if i < 0 then max 0 (i + n) else min i n)
      in max 0 (clip stop - clip start))"

text \<open>
  \<open>frame[y:y+h, x:x+w] = panel\<close> for a panel of shape \<open>(h, w, 3)\<close>: numpy raises
  ValueError unless the selected region has the shape of the panel.
\<close>

definition region_fits :: "frame \<Rightarrow> int \<Rightarrow> int \<Rightarrow> int \<Rightarrow> int \<Rightarrow> bool" where
  "region_fits fr x_offset y_offset w h =
     (slice_len (fr_height fr) y_offset (y_offset + h) = h \<and>
      slice_len (fr_width fr) x_offset (x_offset + w) = w)"

definition blit ::
  "frame \<Rightarrow> string \<Rightarrow> int \<Rightarrow> int \<Rightarrow> int \<Rightarrow> int \<Rightarrow> shown list \<Rightarrow> py_error + frame" where
  "blit fr title x_offset y_offset w h vals =
     (if region_fits fr x_offset y_offset w h
      then Inr (fr\<lparr>drawn := drawn fr @ [Blit title x_offset y_offset w h vals]\<rparr>)
      else Inl ValueError)"

definition overlay :: "frame \<Rightarrow> string \<Rightarrow> shown list \<Rightarrow> frame" where
  "overlay fr what vals = fr\<lparr>drawn := drawn fr @ [Overlay what vals]\<rparr>"

section \<open>Hand processing\<close>

text \<open>
  \<open>process_hands\<close>: the argument \<open>hands\<close> is \<open>results.multi_hand_landmarks\<close>, the
  hands found by MediaPipe in the frame (empty when it found none). The loop visits
  every hand in order and assigns \<open>gesture\<close> in each iteration.
\<close>

fun hands_loop :: "frame \<Rightarrow> gesture \<Rightarrow> landmark list list \<Rightarrow> py_error + frame \<times> gesture" where
  "hands_loop fr gesture [] = Inr (fr, gesture)"
| "hands_loop fr gesture (hand_landmarks # rest) =
     (let fr1 = fr\<lparr>drawn := drawn fr @ [HandSkeleton hand_landmarks]\<rparr>
      in case recognize_gesture hand_landmarks of
           Inl e \<Rightarrow> Inl e
         | Inr g \<Rightarrow> hands_loop (fr1\<lparr>drawn := drawn fr1 @ [GestureText g]\<rparr>) g rest)"

definition process_hands :: "frame \<Rightarrow> landmark list list \<Rightarrow> py_error + frame \<times> gesture" where
  "process_hands fr hands =
     (if hands \<noteq> [] then hands_loop fr NoHand hands else Inr (fr, NoHand))"

text \<open>The gesture that a call of \<open>process_hands\<close> returns, or the error it raises.\<close>

definition emitted :: "py_error + frame \<times> gesture \<Rightarrow> py_error + gesture" where
  "emitted r = (case r of Inl e \<Rightarrow> Inl e | Inr (fr, g) \<Rightarrow> Inr g)"

definition blank_frame :: frame where
  "blank_frame = \<lparr>fr_height = 720, fr_width = 1280, drawn = []\<rparr>"

section \<open>Progress bar\<close>







text \<open>
  The column \<open>x + int(width * progress)\<close> at which the filled part ends: the integer
  \<open>width\<close> is converted to a float, the product is rounded as a double, and \<open>int\<close>
  truncates it.
\<close>

definition fill_end :: "int \<Rightarrow> int \<Rightarrow> pyfloat \<Rightarrow> py_error + int" where
  "fill_end x width progress =
     (case float_of_int width of
        Inl e \<Rightarrow> Inl e
      | Inr w \<Rightarrow>
          (case int_of_float (float_mul w progress) of
             Inl e \<Rightarrow> Inl e
           | Inr k \<Rightarrow> Inr (x + k)))"




definition double_0_30 :: real where
  "double_0_30 = 5404319552844595 / 2 ^ 54"

definition double_0_95 :: real where
  "double_0_95 = 4278419646001971 / 2 ^ 52"

section \<open>State of the HUD\<close>

record system_status =
  cpu_usage :: real
  memory_usage :: real
  network_status :: string
  threat_level :: string
  battery_level :: int
  system_time :: real
  mission_status :: string
  neural_interface :: string

datatype affiliation = Friend | Neutral | Hostile

text \<open>A radar blip is the dictionary with the keys angle, distance, type and lifetime.\<close>

record blip =
  angle :: int
  distance :: int
  blip_type :: affiliation
  lifetime :: int

record weapon =
  weapon_name :: string
  ammo :: int
  weapon_status :: string

record hud =
  status :: system_status
  scan_angle :: int
  pulse_animation :: real
  radar_blips :: "blip list"
  system_boot_time :: real
  frame_count :: int
  current_hud_mode :: string
  weapon_primary :: weapon
  weapon_secondary :: weapon
  weapon_special :: weapon
  current_volume :: int
  cpu_history :: "real list"
  memory_history :: "real list"

text \<open>The state built by \<open>__init__\<close> when the clock reads \<open>t0\<close>.\<close>

definition init_hud :: "real \<Rightarrow> hud" where
  "init_hud t0 =
     \<lparr>status = \<lparr>cpu_usage = 0, memory_usage = 0, network_status = ''ONLINE'',
                 threat_level = ''LOW'', battery_level = 100, system_time = t0,
                 mission_status = ''ACTIVE'', neural_interface = ''SYNCED''\<rparr>,
      scan_angle = 0, pulse_animation = 0, radar_blips = [], system_boot_time = t0,
      frame_count = 0, current_hud_mode = ''COMBAT'',
      weapon_primary = \<lparr>weapon_name = ''PLASMA RIFLE'', ammo = 85, weapon_status = ''READY''\<rparr>,
      weapon_secondary = \<lparr>weapon_name = ''ENERGY PISTOL'', ammo = 60, weapon_status = ''READY''\<rparr>,
      weapon_special = \<lparr>weapon_name = ''SONIC EMITTER'', ammo = 100, weapon_status = ''CHARGING''\<rparr>,
      current_volume = 50, cpu_history = [], memory_history = []\<rparr>"

section \<open>Random draws\<close>

text \<open>
  The random module is embedded by passing the raw draw to each call.
  \<open>random.randint(a, b)\<close> returns an integer \<open>N\<close> with \<open>a \<le> N \<le> b\<close>, both ends
  included; \<open>random.choice(seq)\<close> returns an element of a non-empty sequence;
  \<open>random.random()\<close> is the raw draw itself.
\<close>

definition randint :: "int \<Rightarrow> int \<Rightarrow> int \<Rightarrow> int" where
  "randint a b raw = a + raw mod (b - a + 1)"

definition py_choice :: "'a list \<Rightarrow> nat \<Rightarrow> 'a" where
  "py_choice seq raw = seq ! (raw mod length seq)"

section \<open>Telemetry\<close>

text \<open>
  What \<open>update_system_metrics\<close> reads from outside: \<open>time.time()\<close>, the two psutil
  probes, the random draws in call order, and \<open>datetime.now()\<close>.
\<close>

record metrics_env =
  current_time :: real
  cpu_percent :: real
  memory_percent :: real
  network_roll :: real
  network_pick :: nat
  threat_roll :: real
  threat_pick :: nat
  clock_now :: real

definition update_system_metrics :: "hud \<Rightarrow> metrics_env \<Rightarrow> hud" where
  "update_system_metrics self env =
     (let time_since_boot = current_time env - system_boot_time self;
          st1 = (status self)\<lparr>cpu_usage := cpu_percent env,
                               memory_usage := memory_percent env,
                               battery_level := max 10 (100 - py_int (time_since_boot / 10))\<rparr>;
          st2 = (if network_roll env < 1 / 100
                 then st1\<lparr>network_status :=
                        py_choice [''ONLINE'', ''STABLE'', ''ENCRYPTED'', ''OPTIMAL'']
                          (network_pick env)\<rparr>
                 else st1);
          st3 = (if threat_roll env < 5 / 1000
                 then st2\<lparr>threat_level :=
                        py_choice [''LOW'', ''MEDIUM'', ''HIGH'', ''CRITICAL''] (threat_pick env)\<rparr>
                 else st2);
          st4 = st3\<lparr>system_time := clock_now env\<rparr>;
          ch = cpu_history self @ [cpu_usage st4];
          mh = memory_history self @ [memory_usage st4]
      in self\<lparr>status := st4,
              cpu_history := (if length ch > 50 then tl ch else ch),
              memory_history := (if length ch > 50 then tl mh else mh)\<rparr>)"

text \<open>A telemetry tick when \<open>t\<close> seconds have passed since the state was built.\<close>

definition tick_env :: "real \<Rightarrow> metrics_env" where
  "tick_env t = \<lparr>current_time = t, cpu_percent = 0, memory_percent = 0, network_roll = 1,
                 network_pick = 0, threat_roll = 1, threat_pick = 0, clock_now = t\<rparr>"

definition battery_after :: "hud \<Rightarrow> metrics_env \<Rightarrow> int" where
  "battery_after self env = battery_level (status (update_system_metrics self env))"

section \<open>Radar contacts\<close>

definition radar_size :: int where
  "radar_size = 220"

text \<open>
  The random draws of one call of \<open>draw_radar_display\<close>, in call order:
  \<open>random.random()\<close>, then the raw draws behind the angle, the distance, the type
  and the lifetime of a new blip.
\<close>

record radar_env =
  spawn_roll :: real
  angle_raw :: int
  distance_raw :: int
  type_raw :: nat
  lifetime_raw :: int

definition spawn_blip :: "radar_env \<Rightarrow> blip list \<Rightarrow> blip list" where
  "spawn_blip env blips =
     (if spawn_roll env < 1 / 10 \<and> length blips < 8
      then blips @
        [\<lparr>angle = randint 0 360 (angle_raw env),
          distance = randint 20 (radar_size div 2 - 30) (distance_raw env),
          blip_type = py_choice [Friend, Neutral, Hostile] (type_raw env),
          lifetime = randint 50 200 (lifetime_raw env)\<rparr>]
      else blips)"

text \<open>
  The loop \<open>for blip in self.radar_blips[:]\<close>. The copy and the live list hold the
  same dictionaries, so the live list is always \<open>kept\<close>, the visited blips that are
  still in it, followed by the blips not visited yet. A visit lowers the lifetime of
  the blip in place; then \<open>self.radar_blips.remove(blip)\<close> deletes the first element
  of the live list that is equal to it as a dictionary, which is what \<open>remove1\<close>
  does. The element is in the list, so \<open>remove\<close> does not raise.
\<close>

fun age_blips :: "blip list \<Rightarrow> blip list \<Rightarrow> blip list" where
  "age_blips kept [] = kept"
| "age_blips kept (b # rest) =
     (let b' = b\<lparr>lifetime := lifetime b - 1\<rparr>;
          live = kept @ b' # rest;
          live' = (if lifetime b' \<le> 0 then remove1 b' live else live)
      in age_blips (take (length live' - length rest) live') rest)"

definition radians :: "real \<Rightarrow> real" where
  "radians d = d * pi / 180"

definition blip_shown :: "blip \<Rightarrow> shown list" where
  "blip_shown b =
     [Num (radar_size div 2 +
           py_int (real_of_int (distance b) * cos (radians (real_of_int (angle b))))),
      Num (radar_size div 2 +
           py_int (real_of_int (distance b) * sin (radians (real_of_int (angle b))))),
      Col (if blip_type b = Hostile then (0, 0, 255)
           else if blip_type b = Friend then (0, 255, 0)
           else (0, 255, 255))]"

section \<open>Widgets\<close>

text \<open>
  Every draw routine takes \<open>self\<close> and the frame and returns the frame. The embedding
  returns the state after the call as well, and an error in place of the frame when
  the blit raises: the assignments to \<open>self\<close> come before the blit, so they stay.
  What a routine reads from the clock or from the random module is a further
  argument.
\<close>

text \<open>
  What \<open>strftime('%H:%M:%S')\<close> shows of the reading of \<open>datetime.now()\<close> in
  \<open>draw_status_panel\<close>.
\<close>

record datetime =
  dt_hour :: int
  dt_minute :: int
  dt_second :: int

definition draw_status_panel ::
  "hud \<Rightarrow> frame \<Rightarrow> datetime \<Rightarrow> hud \<times> (py_error + frame)" where
  "draw_status_panel self fr now =
     (let pulse = (sin (real_of_int (frame_count self) * (1 / 10)) + 1) / 2;
          header_color = (0, py_int (100 + 155 * pulse), 0);
          st = status self
      in (self,
          blit fr ''panel'' 20 20 450 180
            [Col header_color, Flt (cpu_usage st), Flt (memory_usage st),
             Str (network_status st), Str (threat_level st), Num (battery_level st),
             Str (current_hud_mode self),
             Num (dt_hour now), Num (dt_minute now), Num (dt_second now),
             Str (mission_status st),
             Flt (cpu_usage st / 100), Flt (memory_usage st / 100),
             Flt (real_of_int (battery_level st) / 100)]))"

definition draw_radar_display :: "hud \<Rightarrow> frame \<Rightarrow> radar_env \<Rightarrow> hud \<times> (py_error + frame)" where
  "draw_radar_display self fr env =
     (let height = fr_height fr; width = fr_width fr;
          center_x = width - radar_size - 30;
          center_y = height - radar_size - 30;
          scan = (scan_angle self + 3) mod 360;
          end_x = radar_size div 2 +
                  py_int (real_of_int (radar_size div 2 - 15) * cos (radians (real_of_int scan)));
          end_y = radar_size div 2 +
                  py_int (real_of_int (radar_size div 2 - 15) * sin (radians (real_of_int scan)));
          spawned = spawn_blip env (radar_blips self);
          self' = self\<lparr>scan_angle := scan, radar_blips := age_blips [] spawned\<rparr>
      in (self',
          case blit fr ''radar'' center_x center_y radar_size radar_size
                 ([Num end_x, Num end_y] @ concat (map blip_shown spawned)) of
            Inl e \<Rightarrow> Inl e
          | Inr fr1 \<Rightarrow> Inr (overlay fr1 ''TACTICAL RADAR'' [Num center_x, Num (center_y - 10)])))"

text \<open>\<open>a % m\<close> on floats, for \<open>m > 0\<close>.\<close>

definition py_fmod :: "real \<Rightarrow> real \<Rightarrow> real" where
  "py_fmod a m = a - m * real_of_int \<lfloor>a / m\<rfloor>"

text \<open>The seven \<open>random.randint\<close> draws of \<open>draw_vital_signs\<close>, in call order.\<close>

record vitals_env =
  o2_raw :: int
  systolic_raw :: int
  diastolic_raw :: int
  temp_raw :: int
  neural_raw :: int
  sync_raw :: int
  adrenaline_raw :: int

definition draw_vital_signs :: "hud \<Rightarrow> frame \<Rightarrow> vitals_env \<Rightarrow> hud \<times> (py_error + frame)" where
  "draw_vital_signs self fr env =
     (let width = fr_width fr;
          pulse = py_fmod (pulse_animation self + 15 / 100) (2 * pi);
          heart_rate = 72 + py_int (8 * sin pulse);
          vital_data =
            [Num heart_rate,
             Num (98 + randint (- 1) 1 (o2_raw env)),
             Num (120 + randint (- 5) 5 (systolic_raw env)),
             Num (80 + randint (- 3) 3 (diastolic_raw env)),
             Num (5 + randint 0 2 (temp_raw env)),
             Num (85 + randint 0 10 (neural_raw env)),
             Num (92 + randint 0 8 (sync_raw env)),
             Num (15 + randint 0 10 (adrenaline_raw env))];
          points = map (\<lambda>k. Num (140 + py_int (12 * sin (real (4 * k) * (5 / 100) + pulse))))
                     [0..<75]
      in (self\<lparr>pulse_animation := pulse\<rparr>,
          blit fr ''vitals'' (width - 340) 20 320 160 (vital_data @ points)))"

text \<open>
  The two readings of \<open>time.time()\<close> in \<open>draw_navigation\<close>. The altitude is
  formatted with \<open>.0f\<close>, which rounds to the nearest integer, ties to even.
\<close>

record nav_env =
  needle_time :: real
  alt_time :: real

definition draw_navigation :: "hud \<Rightarrow> frame \<Rightarrow> nav_env \<Rightarrow> hud \<times> (py_error + frame)" where
  "draw_navigation self fr env =
     (let width = fr_width fr;
          center_x = width div 2; center_y = 60;
          compass_radius = 45;
          needle_angle = py_fmod (needle_time env * 20) 360;
          needle_x = center_x + py_int (real_of_int (compass_radius - 8) * cos (radians needle_angle));
          needle_y = center_y + py_int (real_of_int (compass_radius - 8) * sin (radians needle_angle))
      in (self,
          Inr (overlay fr ''compass''
                 [Num center_x, Num center_y, Num needle_x, Num needle_y,
                  Num (rne (150 + 10 * sin (alt_time env)))])))"

definition draw_weapon_system :: "hud \<Rightarrow> frame \<Rightarrow> hud \<times> (py_error + frame)" where
  "draw_weapon_system self fr =
     (let height = fr_height fr
      in (self,
          blit fr ''weapons'' 20 (height - 140) 280 120
            [Str (weapon_name (weapon_primary self)), Num (ammo (weapon_primary self)),
             Str (weapon_status (weapon_primary self)),
             Str (weapon_name (weapon_secondary self)), Num (ammo (weapon_secondary self)),
             Str (weapon_status (weapon_secondary self))]))"

definition draw_communication :: "hud \<Rightarrow> frame \<Rightarrow> hud \<times> (py_error + frame)" where
  "draw_communication self fr =
     (let height = fr_height fr; width = fr_width fr
      in (self, blit fr ''comms'' (width - 240) (height - 120) 220 100 []))"

definition draw_threat_assessment :: "hud \<Rightarrow> frame \<Rightarrow> hud \<times> (py_error + frame)" where
  "draw_threat_assessment self fr =
     (let height = fr_height fr; width = fr_width fr;
          threat_levels = [(''LOW'', (0, 255, 0)), (''MEDIUM'', (0, 200, 200)),
                           (''HIGH'', (0, 100, 255)), (''CRITICAL'', (0, 0, 255))];
          current_threat = threat_level (status self);
          color = (case map_of threat_levels current_threat of
                     Some c \<Rightarrow> c | None \<Rightarrow> (0, 255, 0))
      in (self,
          blit fr ''threat'' (width div 2 - 150) (height div 2 - 70) 300 140
            [Col color, Str current_threat]))"

definition draw_mission_objectives :: "hud \<Rightarrow> frame \<Rightarrow> real \<Rightarrow> hud \<times> (py_error + frame)" where
  "draw_mission_objectives self fr clock =
     (let height = fr_height fr; width = fr_width fr
      in (self,
          blit fr ''mission'' (width - 370) (height div 2 - 60) 350 120
            [Num (py_int (clock - system_boot_time self))]))"

text \<open>
  The calls of \<open>draw_radar_display\<close> made by successive frames, each with its frame
  and its random draws.
\<close>

fun radar_ticks :: "hud \<Rightarrow> (frame \<times> radar_env) list \<Rightarrow> hud" where
  "radar_ticks self [] = self"
| "radar_ticks self ((fr, env) # rest) = radar_ticks (fst (draw_radar_display self fr env)) rest"

text \<open>Draws for which the spawn always takes place.\<close>

definition eager_env :: radar_env where
  "eager_env = \<lparr>spawn_roll = 0, angle_raw = 360, distance_raw = 0, type_raw = 0,
                lifetime_raw = 150\<rparr>"

text \<open>Draws for which no spawn takes place.\<close>

definition idle_env :: radar_env where
  "idle_env = \<lparr>spawn_roll = 1 / 2, angle_raw = 0, distance_raw = 0, type_raw = 0,
               lifetime_raw = 0\<rparr>"

definition some_vitals_env :: vitals_env where
  "some_vitals_env = \<lparr>o2_raw = 0, systolic_raw = 0, diastolic_raw = 0, temp_raw = 0,
                      neural_raw = 0, sync_raw = 0, adrenaline_raw = 0\<rparr>"

text \<open>Two sets of draws for the vital signs and two readings of the clock.\<close>

definition other_vitals_env :: vitals_env where
  "other_vitals_env = some_vitals_env\<lparr>o2_raw := 1\<rparr>"

definition midnight :: datetime where
  "midnight = \<lparr>dt_hour = 0, dt_minute = 0, dt_second = 0\<rparr>"

definition second_past :: datetime where
  "second_past = \<lparr>dt_hour = 0, dt_minute = 0, dt_second = 1\<rparr>"

text \<open>The frames and draws of \<open>n\<close> ticks on each of which the spawn is attempted.\<close>

definition eager_ticks :: "nat \<Rightarrow> (frame \<times> radar_env) list" where
  "eager_ticks n = replicate n (blank_frame, eager_env)"

section \<open>Properties of the classifier\<close>

lemma getitem_in_range: "i < length xs \<Longrightarrow> getitem xs i = Inr (xs ! i)"
  by (simp add: getitem_def)

lemma getitem_out_of_range: "length xs \<le> i \<Longrightarrow> getitem xs i = Inl IndexError"
  by (simp add: getitem_def)

lemma recognize_gesture_full:
  assumes "21 \<le> length landmarks"
  shows "recognize_gesture landmarks =
    Inr (gesture_rules landmarks (landmarks ! 4) (landmarks ! 8) (landmarks ! 12)
          (landmarks ! 16) (landmarks ! 20))"
proof -
  from assms have "landmarks \<noteq> []" by auto
  moreover from assms have "getitem landmarks 4 = Inr (landmarks ! 4)"
    "getitem landmarks 8 = Inr (landmarks ! 8)" "getitem landmarks 12 = Inr (landmarks ! 12)"
    "getitem landmarks 16 = Inr (landmarks ! 16)" "getitem landmarks 20 = Inr (landmarks ! 20)"
    by (simp_all add: getitem_in_range)
  ultimately show ?thesis by (simp add: recognize_gesture_def)
qed

lemma recognize_gesture_short:
  assumes "landmarks \<noteq> []" "length landmarks < 21"
  shows "recognize_gesture landmarks = Inl IndexError"
proof -
  from assms(2) have "getitem landmarks 20 = Inl IndexError"
    by (simp add: getitem_out_of_range)
  with assms(1) show ?thesis
    by (simp add: recognize_gesture_def getitem_def split: sum.splits)
qed

lemma mk_hand_length: "length (mk_hand t3 t4 i6 i8 m10 m12 r14 r16 p18 p20) = 21"
  by (simp add: mk_hand_def)

lemma mk_hand_tip:
  "tip_extended (mk_hand t3 t4 i6 i8 m10 m12 r14 r16 p18 p20) 8 = (i8 < i6)"
  "tip_extended (mk_hand t3 t4 i6 i8 m10 m12 r14 r16 p18 p20) 12 = (m12 < m10)"
  "tip_extended (mk_hand t3 t4 i6 i8 m10 m12 r14 r16 p18 p20) 16 = (r16 < r14)"
  "tip_extended (mk_hand t3 t4 i6 i8 m10 m12 r14 r16 p18 p20) 20 = (p20 < p18)"
  by (simp_all add: tip_extended_def is_finger_extended_def mk_hand_def pt_def)

lemma mk_hand_thumb:
  "is_finger_extended (mk_hand t3 t4 i6 i8 m10 m12 r14 r16 p18 p20 ! 4)
     (mk_hand t3 t4 i6 i8 m10 m12 r14 r16 p18 p20 ! 3) = (t4 < t3)"
  by (simp add: is_finger_extended_def mk_hand_def pt_def)


text \<open>
  On a sequence of at least 21 points the result is the rule chain, here written on
  the thumb predicate \<open>th\<close>, the predicates \<open>i\<close>, \<open>m\<close>, \<open>r\<close>, \<open>p\<close> of the four
  fingers, and the pinch distance.
\<close>

lemma rules_by_predicates:
  assumes "21 \<le> length landmarks"
  shows "recognize_gesture landmarks =
    Inr (let th = is_finger_extended (landmarks ! 4) (landmarks ! 3);
             i = tip_extended landmarks 8; m = tip_extended landmarks 12;
             r = tip_extended landmarks 16; p = tip_extended landmarks 20
         in if i \<and> m \<and> \<not> r \<and> \<not> p then Peace
            else if th \<and> \<not> (i \<or> m \<or> r \<or> p) then ThumbsUp
            else if \<not> th \<and> \<not> (i \<or> m \<or> r \<or> p) then ThumbsDown
            else if \<not> i \<and> \<not> m \<and> \<not> r \<and> \<not> p then Fist
            else if i \<and> m \<and> r \<and> p then OpenPalm
            else if i \<and> \<not> (m \<or> r \<or> p) then Pointing
            else if calculate_distance (landmarks ! 4) (landmarks ! 8) < 5 / 100 \<and> m \<and> r \<and> p
            then Ok
            else if i \<and> p \<and> \<not> (m \<or> r) then Rock
            else Unknown)"
  unfolding recognize_gesture_full [OF assms] gesture_rules_def
  by (simp add: tip_extended_def Let_def)

subsection \<open>Malformed input\<close>

text \<open>
  Claim C1 says that every malformed landmark input (empty, fewer than 21 points)
  makes \<open>recognize_gesture\<close> return \<open>"unknown"\<close> without raising. The guard of
  the source covers the empty sequence only: a sequence of five points passes the
  guard and the read of \<open>landmarks[8]\<close> raises IndexError.
\<close>

theorem recognize_gesture_short_raises:
  "recognize_gesture [pt 0 0, pt 0 0, pt 0 0, pt 0 0, pt 0 0] = Inl IndexError"
  by (simp add: recognize_gesture_def getitem_def)

text \<open>
  Claim C1, amended: the empty sequence is classified as \<open>"unknown"\<close>; a non-empty
  sequence of fewer than 21 points raises IndexError; a sequence of at least 21
  points always returns a label.
\<close>

theorem recognize_gesture_by_length:
  "recognize_gesture [] = Inr Unknown \<and>
   (landmarks \<noteq> [] \<and> length landmarks < 21 \<longrightarrow>
      recognize_gesture landmarks = Inl IndexError) \<and>
   (21 \<le> length landmarks \<longrightarrow> (\<exists>g. recognize_gesture landmarks = Inr g))"
  by (simp add: recognize_gesture_short recognize_gesture_full)
     (simp add: recognize_gesture_def)

theorem recognize_gesture_by_length_witness:
  "[pt 0 0] \<noteq> [] \<and> length [pt 0 0] < 21 \<and> recognize_gesture [pt 0 0] = Inl IndexError \<and>
   21 \<le> length closed_hand \<and> (\<exists>g. recognize_gesture closed_hand = Inr g)"
  using recognize_gesture_by_length [of "[pt 0 0]"] recognize_gesture_by_length [of closed_hand]
  by (simp add: closed_hand_def mk_hand_length)

subsection \<open>No finger extended\<close>

text \<open>
  Claim C3: on a full 21-landmark input on which no finger is extended, the result is
  one of fist, thumbs_up and thumbs_down, it is decided by the thumb predicate alone,
  and it is never unknown. The theorem assumes only that index, middle, ring and
  pinky are not extended, and gives the result for either value of the thumb
  predicate; when the thumb predicate is false as well, the result is thumbs_down.
\<close>

theorem closed_fingers_thumb_decides:
  assumes "length landmarks = 21"
    and "\<not> tip_extended landmarks 8" "\<not> tip_extended landmarks 12"
    and "\<not> tip_extended landmarks 16" "\<not> tip_extended landmarks 20"
  shows "recognize_gesture landmarks =
           Inr (if is_finger_extended (landmarks ! 4) (landmarks ! 3)
                then ThumbsUp else ThumbsDown) \<and>
         recognize_gesture landmarks \<in> {Inr Fist, Inr ThumbsUp, Inr ThumbsDown} \<and>
         recognize_gesture landmarks \<noteq> Inr Unknown"
proof -
  from assms(1) have "21 \<le> length landmarks" by simp
  note r = rules_by_predicates [OF this]
  from assms(2-) show ?thesis unfolding r by (simp add: Let_def)
qed

theorem closed_fingers_thumb_decides_witness:
  "length closed_hand = 21 \<and>
   \<not> tip_extended closed_hand 8 \<and> \<not> tip_extended closed_hand 12 \<and>
   \<not> tip_extended closed_hand 16 \<and> \<not> tip_extended closed_hand 20 \<and>
   \<not> is_finger_extended (closed_hand ! 4) (closed_hand ! 3) \<and>
   recognize_gesture closed_hand = Inr ThumbsDown"
  using closed_fingers_thumb_decides [of closed_hand]
  by (simp add: closed_hand_def mk_hand_length mk_hand_tip mk_hand_thumb)

subsection \<open>The pinch\<close>




subsection \<open>The fist rule\<close>

text \<open>
  Claim C10: \<open>recognize_gesture\<close> never returns fist. Whenever none of index,
  middle, ring and pinky is extended, the thumbs_up rule or the thumbs_down rule
  has matched before the fist rule is reached.
\<close>

theorem fist_never_returned:
  "recognize_gesture landmarks \<noteq> Inr Fist \<and>
   (21 \<le> length landmarks \<and>
    list_all (\<lambda>tip. \<not> tip_extended landmarks tip) [8, 12, 16, 20] \<longrightarrow>
      recognize_gesture landmarks \<in> {Inr ThumbsUp, Inr ThumbsDown})"
proof (cases "21 \<le> length landmarks")
  case True
  note r = rules_by_predicates [OF True]
  show ?thesis unfolding r by (auto simp add: Let_def)
next
  case False
  show ?thesis
  proof (cases "landmarks = []")
    case True
    then show ?thesis by (simp add: recognize_gesture_def)
  next
    case nonempty: False
    with False have "recognize_gesture landmarks = Inl IndexError"
      by (simp add: recognize_gesture_short)
    with False show ?thesis by simp
  qed
qed

theorem fist_never_returned_witness:
  "21 \<le> length closed_hand \<and>
   list_all (\<lambda>tip. \<not> tip_extended closed_hand tip) [8, 12, 16, 20] \<and>
   recognize_gesture closed_hand \<noteq> Inr Fist \<and>
   recognize_gesture closed_hand \<in> {Inr ThumbsUp, Inr ThumbsDown}"
  using fist_never_returned [of closed_hand]
  by (simp add: closed_hand_def mk_hand_length mk_hand_tip)

section \<open>Properties of hand processing\<close>

lemma emitted_simps: "emitted (Inl e) = Inl e" "emitted (Inr (fr, g)) = Inr g"
  by (simp_all add: emitted_def)

lemma hands_loop_last:
  "\<forall>h \<in> set hands. 21 \<le> length h \<Longrightarrow>
   emitted (hands_loop fr g hands) =
     (if hands = [] then Inr g else recognize_gesture (last hands))"
proof (induction hands arbitrary: fr g)
  case Nil
  then show ?case by (simp add: emitted_simps)
next
  case (Cons h hs)
  from Cons.prems have "21 \<le> length h" by simp
  then obtain g' where g': "recognize_gesture h = Inr g'"
    by (auto simp add: recognize_gesture_full)
  from Cons.prems have "\<forall>h \<in> set hs. 21 \<le> length h" by simp
  note ih = Cons.IH [OF this]
  show ?case by (simp add: g' ih Let_def emitted_simps)
qed

lemma peace_hand_peace: "recognize_gesture peace_hand = Inr Peace"
proof -
  have "21 \<le> length peace_hand" by (simp add: peace_hand_def mk_hand_length)
  note r = rules_by_predicates [OF this]
  show ?thesis unfolding r
    by (simp add: peace_hand_def mk_hand_tip mk_hand_thumb)
qed

lemma pinch_palm_hand_open: "recognize_gesture pinch_palm_hand = Inr OpenPalm"
proof -
  have "21 \<le> length pinch_palm_hand" by (simp add: pinch_palm_hand_def mk_hand_length)
  note r = rules_by_predicates [OF this]
  show ?thesis unfolding r
    by (simp add: pinch_palm_hand_def mk_hand_tip mk_hand_thumb)
qed

text \<open>
  Claim C2 says that with two or more hands in a frame the emitted gesture is the
  classification of the first hand. The loop assigns \<open>gesture\<close> for every hand and
  never leaves early: with a peace hand first and an open palm second, the call
  returns open_palm.
\<close>

theorem process_hands_two_hands_second_wins:
  "emitted (process_hands blank_frame [peace_hand, pinch_palm_hand]) = Inr OpenPalm \<and>
   recognize_gesture (hd [peace_hand, pinch_palm_hand]) = Inr Peace \<and>
   emitted (process_hands blank_frame [peace_hand, pinch_palm_hand]) \<noteq>
     recognize_gesture (hd [peace_hand, pinch_palm_hand])"
  by (simp add: process_hands_def peace_hand_peace pinch_palm_hand_open Let_def emitted_simps)

text \<open>
  Claim C2, amended: for every frame in which the landmark source detects one or more
  hands, each of 21 points or more, the emitted gesture is the classification of the
  last detected hand.
\<close>

theorem process_hands_last_hand_wins:
  assumes "hands \<noteq> []" and "\<forall>h \<in> set hands. 21 \<le> length h"
  shows "emitted (process_hands fr hands) = recognize_gesture (last hands)"
  using assms by (simp add: process_hands_def hands_loop_last)

theorem process_hands_last_hand_wins_witness:
  "[peace_hand, pinch_palm_hand] \<noteq> [] \<and>
   21 \<le> length peace_hand \<and> 21 \<le> length pinch_palm_hand \<and>
   emitted (process_hands blank_frame [peace_hand, pinch_palm_hand]) =
     recognize_gesture pinch_palm_hand"
  using process_hands_last_hand_wins [of "[peace_hand, pinch_palm_hand]" blank_frame]
  by (simp add: peace_hand_def pinch_palm_hand_def mk_hand_length)

section \<open>Properties of the progress bar\<close>

lemma py_int_of_int: "py_int (real_of_int k) = k"
  by (simp add: py_int_def)

lemma py_int_numeral:
  "py_int 0 = 0" "py_int (numeral n) = numeral n" "py_int (- numeral n) = - numeral n"
  using py_int_of_int [of 0] py_int_of_int [of "numeral n"] py_int_of_int [of "- numeral n"]
  by simp_all

lemma py_int_mono: "a \<le> b \<Longrightarrow> py_int a \<le> py_int b"
proof -
  assume ab: "a \<le> b"
  consider "0 \<le> a" | "b < 0" | "a < 0" "0 \<le> b" by linarith
  then show ?thesis
  proof cases
    case 1
    with ab show ?thesis by (simp add: py_int_def floor_mono)
  next
    case 2
    with ab show ?thesis by (simp add: py_int_def ceiling_mono)
  next
    case 3
    from 3(1) have "\<lceil>a\<rceil> \<le> 0" by (simp add: ceiling_le_iff)
    moreover from 3(2) have "0 \<le> \<lfloor>b\<rfloor>" by simp
    moreover from 3 have "py_int a = \<lceil>a\<rceil>" "py_int b = \<lfloor>b\<rfloor>"
      by (simp_all add: py_int_def)
    ultimately show ?thesis by linarith
  qed
qed

text \<open>Rounding to the nearest integer and to the nearest double.\<close>

lemma rne_of_int: "rne (of_int n) = n"
  by (simp add: rne_def)

lemma rne_le: "v \<le> of_int n \<Longrightarrow> rne v \<le> n"
proof -
  assume a: "v \<le> of_int n"
  then have f: "\<lfloor>v\<rfloor> \<le> n" by (simp add: floor_le_iff)
  show ?thesis
  proof (cases "\<lfloor>v\<rfloor> = n")
    case True
    with a have "v = of_int n" by linarith
    then show ?thesis by (simp add: rne_of_int)
  next
    case False
    with f have "\<lfloor>v\<rfloor> + 1 \<le> n" by simp
    moreover have "rne v \<le> \<lfloor>v\<rfloor> + 1" by (simp add: rne_def Let_def)
    ultimately show ?thesis by linarith
  qed
qed

lemma rne_ge: "of_int n \<le> v \<Longrightarrow> n \<le> rne v"
proof -
  assume "of_int n \<le> v"
  then have "n \<le> \<lfloor>v\<rfloor>" by (simp add: le_floor_iff)
  moreover have "\<lfloor>v\<rfloor> \<le> rne v" by (simp add: rne_def Let_def)
  ultimately show ?thesis by linarith
qed

lemma floor_log2_binade:
  assumes "2 powi k \<le> \<bar>r\<bar>" "\<bar>r\<bar> < 2 powi (k + 1)"
  shows "\<lfloor>log 2 \<bar>r\<bar>\<rfloor> = k"
proof -
  have "(0::real) < 2 powi k" by simp
  with assms(1) have pos: "0 < \<bar>r\<bar>" by linarith
  have "(2::real) powr (real_of_int k) = 2 powi k"
    by (simp add: powr_real_of_int')
  moreover have "(2::real) powr (real_of_int k + 1) = 2 powi (k + 1)"
    using powr_real_of_int' [of "2::real" "k + 1"] by simp
  ultimately have "2 powr (real_of_int k) \<le> \<bar>r\<bar> \<and> \<bar>r\<bar> < 2 powr (real_of_int k + 1)"
    using assms by simp
  with pos show ?thesis by (simp add: floor_log_eq_powr_iff)
qed

lemma ulp_exp_binade:
  assumes "2 powi k \<le> \<bar>r\<bar>" "\<bar>r\<bar> < 2 powi (k + 1)"
  shows "ulp_exp r = max (k - 52) (- 1074)"
  using floor_log2_binade [OF assms] by (simp add: ulp_exp_def)

lemma ulp_exp_nonpos:
  assumes "r \<noteq> 0" "\<bar>r\<bar> < 2 ^ 53"
  shows "ulp_exp r \<le> 0"
proof -
  from assms have pos: "0 < \<bar>r\<bar>" by simp
  have "log 2 \<bar>r\<bar> < 53" using assms pos by (simp add: log_less_iff)
  then have "\<lfloor>log 2 \<bar>r\<bar>\<rfloor> < 53" by (simp add: floor_less_iff)
  then show ?thesis by (simp add: ulp_exp_def)
qed

text \<open>Below \<open>2^53\<close> the spacing of the doubles is one over a power of two.\<close>

lemma round_double_scaled:
  assumes "r \<noteq> 0" "\<bar>r\<bar> < 2 ^ 53"
  shows "\<exists>n::nat. round_double r = real_of_int (rne (r * 2 ^ n)) / 2 ^ n"
proof -
  from ulp_exp_nonpos [OF assms] obtain n :: nat where n: "ulp_exp r = - int n"
    by (metis nonpos_int_cases)
  have "(2::real) powi ulp_exp r = 1 / 2 ^ n"
    by (simp add: n power_int_minus field_simps)
  with assms(1) have "round_double r = real_of_int (rne (r * 2 ^ n)) / 2 ^ n"
    by (simp add: round_double_def)
  then show ?thesis ..
qed

lemma round_double_between:
  assumes "of_int a \<le> r" "r \<le> of_int b" "\<bar>r\<bar> < 2 ^ 53"
  shows "of_int a \<le> round_double r \<and> round_double r \<le> of_int b"
proof (cases "r = 0")
  case True
  with assms show ?thesis by (simp add: round_double_def)
next
  case False
  from round_double_scaled [OF False assms(3)] obtain n :: nat
    where n: "round_double r = real_of_int (rne (r * 2 ^ n)) / 2 ^ n" ..
  from assms(1) have "real_of_int (a * 2 ^ n) \<le> r * 2 ^ n" by simp
  then have lo: "a * 2 ^ n \<le> rne (r * 2 ^ n)" by (rule rne_ge)
  from assms(2) have "r * 2 ^ n \<le> real_of_int (b * 2 ^ n)" by simp
  then have hi: "rne (r * 2 ^ n) \<le> b * 2 ^ n" by (rule rne_le)
  from lo have "real_of_int (a * 2 ^ n) \<le> real_of_int (rne (r * 2 ^ n))" by linarith
  then have l: "of_int a \<le> round_double r" by (simp add: n field_simps)
  from hi have "real_of_int (rne (r * 2 ^ n)) \<le> real_of_int (b * 2 ^ n)" by linarith
  then have h: "round_double r \<le> of_int b" by (simp add: n field_simps)
  from l h show ?thesis ..
qed

lemma round_double_of_int:
  assumes "\<bar>k\<bar> < 2 ^ 53"
  shows "round_double (of_int k) = of_int k"
proof -
  from assms have "\<bar>real_of_int k\<bar> < 2 ^ 53"
    by (metis of_int_abs of_int_less_numeral_power_cancel_iff)
  from round_double_between [OF _ _ this, of k k] show ?thesis by simp
qed


lemma round_double_binade:
  assumes "2 powi k \<le> \<bar>r\<bar>" "\<bar>r\<bar> < 2 powi (k + 1)" "- 1022 \<le> k"
  shows "round_double r = real_of_int (rne (r / 2 powi (k - 52))) * 2 powi (k - 52)"
proof -
  have "(0::real) < 2 powi k" by simp
  with assms(1) have "0 < \<bar>r\<bar>" by linarith
  then have "r \<noteq> 0" by simp
  moreover from assms(3) have "ulp_exp r = k - 52"
    using ulp_exp_binade [OF assms(1,2)] by simp
  ultimately show ?thesis by (simp add: round_double_def)
qed

lemma rne_numeral: "rne 0 = 0" "rne (numeral n) = numeral n" "rne (- numeral n) = - numeral n"
  using rne_of_int [of 0] rne_of_int [of "numeral n"] rne_of_int [of "- numeral n"]
  by simp_all

lemma float_of_int_exact:
  assumes "\<bar>w\<bar> < 2 ^ 53"
  shows "float_of_int w = Inr (real_of_int w)"
proof -
  have "(2::int) ^ 53 \<le> 2 ^ 1024" by (rule power_increasing) simp_all
  with assms have "\<bar>w\<bar> < 2 ^ 1024" by linarith
  then have "\<bar>real_of_int w\<bar> < 2 ^ 1024"
    by (metis of_int_abs of_int_less_numeral_power_cancel_iff)
  then have "\<not> 2 ^ 1024 \<le> real_of_int w" "\<not> real_of_int w \<le> - (2 ^ 1024)" by linarith+
  then show ?thesis
    by (simp add: float_of_int_def to_double_def round_double_of_int [OF assms] Let_def)
qed






lemma fill_30: "fill_end 120 200 (Finite double_0_30) = Inr 180"
proof -
  define r :: real where "r = 200 * double_0_30"
  have b: "2 powi 5 \<le> \<bar>r\<bar>" "\<bar>r\<bar> < 2 powi (5 + 1)"
    by (simp_all add: r_def double_0_30_def)
  have "round_double r = real_of_int (rne (r / 2 powi (5 - 52))) * 2 powi (5 - 52)"
    using b by (intro round_double_binade) simp_all
  also have "r / 2 powi (5 - 52) = 8444249301319679 + 11 / 16"
    by (simp add: r_def double_0_30_def power_int_minus_divide)
  also have "rne (8444249301319679 + 11 / 16) = 8444249301319680"
  proof -
    have "\<lfloor>8444249301319679 + 11 / 16 :: real\<rfloor> = 8444249301319679" by (simp add: floor_eq_iff)
    then show ?thesis by (simp add: rne_def Let_def)
  qed
  finally have v: "round_double r = 60"
    by (simp add: power_int_minus_divide)
  have "(2::real) ^ 6 \<le> 2 ^ 1024" by (rule power_increasing) simp_all
  then have "\<not> (2::real) ^ 1024 \<le> 60" by simp
  moreover have "\<not> (60::real) \<le> - (2 ^ 1024)"
  proof -
    have "- ((2::real) ^ 1024) < 0" by simp
    then show ?thesis by linarith
  qed
  ultimately have td: "to_double r = Finite 60"
    by (simp add: to_double_def v Let_def)
  have fw: "float_of_int 200 = Inr 200"
    using float_of_int_exact [of 200] by simp
  show ?thesis
    by (simp add: fill_end_def fw td [unfolded r_def] py_int_numeral)
qed

lemma fill_95: "fill_end 120 200 (Finite double_0_95) = Inr 310"
proof -
  define r :: real where "r = 200 * double_0_95"
  have b: "2 powi 7 \<le> \<bar>r\<bar>" "\<bar>r\<bar> < 2 powi (7 + 1)"
    by (simp_all add: r_def double_0_95_def)
  have "round_double r = real_of_int (rne (r / 2 powi (7 - 52))) * 2 powi (7 - 52)"
    using b by (intro round_double_binade) simp_all
  also have "r / 2 powi (7 - 52) = 6685030696878079 + 11 / 16"
    by (simp add: r_def double_0_95_def power_int_minus_divide)
  also have "rne (6685030696878079 + 11 / 16) = 6685030696878080"
  proof -
    have "\<lfloor>6685030696878079 + 11 / 16 :: real\<rfloor> = 6685030696878079" by (simp add: floor_eq_iff)
    then show ?thesis by (simp add: rne_def Let_def)
  qed
  finally have v: "round_double r = 190"
    by (simp add: power_int_minus_divide)
  have "(2::real) ^ 8 \<le> 2 ^ 1024" by (rule power_increasing) simp_all
  then have "\<not> (2::real) ^ 1024 \<le> 190" by simp
  moreover have "\<not> (190::real) \<le> - (2 ^ 1024)"
  proof -
    have "- ((2::real) ^ 1024) < 0" by simp
    then show ?thesis by linarith
  qed
  ultimately have td: "to_double r = Finite 190"
    by (simp add: to_double_def v Let_def)
  have fw: "float_of_int 200 = Inr 200"
    using float_of_int_exact [of 200] by simp
  show ?thesis
    by (simp add: fill_end_def fw td [unfolded r_def] py_int_numeral)
qed

















section \<open>Properties of the telemetry\<close>

lemma battery_after_eq:
  "battery_after self env =
     max 10 (100 - py_int ((current_time env - system_boot_time self) / 10))"
  by (simp add: battery_after_def update_system_metrics_def Let_def)

text \<open>
  Claim C5: after a telemetry tick at elapsed time \<open>t\<close>, which is the reading of the
  clock minus the boot time and is not negative, the battery level is
  \<open>max(10, 100 - floor(t / 10))\<close>; it is never below 10; it does not increase as the
  clock advances; and it is 95 at \<open>t = 50\<close>. The lower bound and the monotonicity hold
  for every reading of the clock.
\<close>

theorem battery_level_decay:
  "(0 \<le> current_time env - system_boot_time self \<longrightarrow>
      battery_after self env =
        max 10 (100 - \<lfloor>(current_time env - system_boot_time self) / 10\<rfloor>)) \<and>
   10 \<le> battery_after self env \<and>
   (system_boot_time self' = system_boot_time self \<and>
    current_time env \<le> current_time env' \<longrightarrow>
      battery_after self' env' \<le> battery_after self env) \<and>
   (current_time env - system_boot_time self = 50 \<longrightarrow> battery_after self env = 95)"
proof (intro conjI impI)
  assume "0 \<le> current_time env - system_boot_time self"
  then show "battery_after self env =
        max 10 (100 - \<lfloor>(current_time env - system_boot_time self) / 10\<rfloor>)"
    by (simp add: battery_after_eq py_int_def)
next
  show "10 \<le> battery_after self env" by (simp add: battery_after_eq)
next
  assume "system_boot_time self' = system_boot_time self \<and>
          current_time env \<le> current_time env'"
  then have "(current_time env - system_boot_time self) / 10 \<le>
             (current_time env' - system_boot_time self') / 10" by simp
  from py_int_mono [OF this] show "battery_after self' env' \<le> battery_after self env"
    by (simp add: battery_after_eq)
next
  assume "current_time env - system_boot_time self = 50"
  then show "battery_after self env = 95"
    by (simp add: battery_after_eq py_int_def)
qed

theorem battery_level_decay_witness:
  "0 \<le> current_time (tick_env 50) - system_boot_time (init_hud 0) \<and>
   current_time (tick_env 50) - system_boot_time (init_hud 0) = 50 \<and>
   battery_after (init_hud 0) (tick_env 50) = 95 \<and>
   system_boot_time (init_hud 0) = system_boot_time (init_hud 0) \<and>
   current_time (tick_env 50) \<le> current_time (tick_env 1000) \<and>
   battery_after (init_hud 0) (tick_env 1000) \<le> battery_after (init_hud 0) (tick_env 50)"
  using battery_level_decay [of "tick_env 50" "init_hud 0" "init_hud 0" "tick_env 1000"]
  by (simp add: tick_env_def init_hud_def)

section \<open>Properties of the radar\<close>

text \<open>The loop over the blips never makes the list longer.\<close>

lemma length_age_blips: "length (age_blips kept rest) \<le> length kept + length rest"
proof (induction rest arbitrary: kept)
  case Nil
  then show ?case by simp
next
  case (Cons b rest)
  define b' where "b' = b\<lparr>lifetime := lifetime b - 1\<rparr>"
  define live where "live = kept @ b' # rest"
  define live' where "live' = (if lifetime b' \<le> 0 then remove1 b' live else live)"
  have "length live' \<le> length live"
    by (simp add: live'_def length_remove1)
  then have "length (take (length live' - length rest) live') \<le> length kept + 1"
    by (simp add: live_def)
  moreover have "age_blips kept (b # rest) =
      age_blips (take (length live' - length rest) live') rest"
    by (simp add: Let_def live'_def live_def b'_def)
  moreover note Cons.IH [of "take (length live' - length rest) live'"]
  ultimately show ?case by simp
qed

text \<open>
  When the blips kept so far are alive, the loop lowers every lifetime by one and
  drops the blips that reach zero: \<open>remove\<close> always deletes the blip being visited.
\<close>

lemma age_blips_alive:
  "\<forall>b \<in> set kept. 0 < lifetime b \<Longrightarrow>
   age_blips kept rest =
     kept @ filter (\<lambda>b. 0 < lifetime b) (map (\<lambda>b. b\<lparr>lifetime := lifetime b - 1\<rparr>) rest)"
proof (induction rest arbitrary: kept)
  case Nil
  then show ?case by simp
next
  case (Cons b rest)
  define b' where "b' = b\<lparr>lifetime := lifetime b - 1\<rparr>"
  show ?case
  proof (cases "lifetime b' \<le> 0")
    case True
    with Cons.prems have "b' \<notin> set kept" by auto
    then have "remove1 b' (kept @ b' # rest) = kept @ rest"
      by (simp add: remove1_append)
    with True have "age_blips kept (b # rest) = age_blips kept rest"
      by (simp add: Let_def b'_def)
    with True Cons.IH [OF Cons.prems] show ?thesis by (simp add: b'_def)
  next
    case False
    then have "age_blips kept (b # rest) = age_blips (kept @ [b']) rest"
      by (simp add: Let_def b'_def)
    moreover from False Cons.prems have "\<forall>b \<in> set (kept @ [b']). 0 < lifetime b" by auto
    note Cons.IH [OF this]
    ultimately show ?thesis using False by (simp add: b'_def)
  qed
qed

lemma age_blips_start:
  "age_blips [] rest =
     filter (\<lambda>b. 0 < lifetime b) (map (\<lambda>b. b\<lparr>lifetime := lifetime b - 1\<rparr>) rest)"
  using age_blips_alive [of "[]" rest] by simp

lemma length_spawn_blip: "length blips \<le> 8 \<Longrightarrow> length (spawn_blip env blips) \<le> 8"
  by (simp add: spawn_blip_def)

lemma spawn_blip_full: "8 \<le> length blips \<Longrightarrow> spawn_blip env blips = blips"
  by (simp add: spawn_blip_def)

lemma radar_blips_tick:
  "radar_blips (fst (draw_radar_display self fr env)) =
     age_blips [] (spawn_blip env (radar_blips self))"
  by (simp add: draw_radar_display_def Let_def)

lemma radar_tick_bound:
  assumes "length (radar_blips self) \<le> 8"
  shows "length (radar_blips (fst (draw_radar_display self fr env))) \<le> 8"
proof -
  have "length (age_blips [] (spawn_blip env (radar_blips self))) \<le>
        length (spawn_blip env (radar_blips self))"
    using length_age_blips [of "[]"] by simp
  also have "\<dots> \<le> 8" using assms by (rule length_spawn_blip)
  finally show ?thesis by (simp add: radar_blips_tick)
qed

lemma radar_ticks_bound:
  "length (radar_blips self) \<le> 8 \<Longrightarrow> length (radar_blips (radar_ticks self ticks)) \<le> 8"
proof (induction ticks arbitrary: self)
  case Nil
  then show ?case by simp
next
  case (Cons t ticks)
  obtain fr env where t: "t = (fr, env)" by (cases t)
  from Cons.prems have "length (radar_blips (fst (draw_radar_display self fr env))) \<le> 8"
    by (rule radar_tick_bound)
  from Cons.IH [OF this] show ?case by (simp add: t)
qed

lemma radar_ticks_snoc:
  "radar_ticks self (ticks @ [(fr, env)]) =
     fst (draw_radar_display (radar_ticks self ticks) fr env)"
  by (induction ticks arbitrary: self) auto

text \<open>A tick with eager draws on a radar whose contacts all have more than one tick left.\<close>

lemma eager_tick:
  assumes "\<forall>b \<in> set (radar_blips self). 1 < lifetime b"
  shows "radar_blips (fst (draw_radar_display self fr eager_env)) =
     map (\<lambda>b. b\<lparr>lifetime := lifetime b - 1\<rparr>)
       (if length (radar_blips self) < 8
        then radar_blips self @
               [\<lparr>angle = 360, distance = 20, blip_type = Friend, lifetime = 200\<rparr>]
        else radar_blips self)"
proof -
  have sp: "spawn_blip eager_env (radar_blips self) =
     (if length (radar_blips self) < 8
        then radar_blips self @
               [\<lparr>angle = 360, distance = 20, blip_type = Friend, lifetime = 200\<rparr>]
        else radar_blips self)"
    by (simp add: spawn_blip_def eager_env_def randint_def py_choice_def radar_size_def)
  from assms have "\<forall>b \<in> set (spawn_blip eager_env (radar_blips self)). 1 < lifetime b"
    unfolding sp by auto
  then have "filter (\<lambda>b. 0 < lifetime b)
      (map (\<lambda>b. b\<lparr>lifetime := lifetime b - 1\<rparr>) (spawn_blip eager_env (radar_blips self))) =
      map (\<lambda>b. b\<lparr>lifetime := lifetime b - 1\<rparr>) (spawn_blip eager_env (radar_blips self))"
    by (intro filter_True) auto
  then show ?thesis by (simp add: radar_blips_tick age_blips_start sp)
qed

text \<open>
  With eager draws the radar fills up one contact per tick and stays at eight: over
  the first twenty ticks no contact expires.
\<close>

lemma eager_run:
  "n \<le> 20 \<Longrightarrow>
   length (radar_blips (radar_ticks (init_hud 0) (replicate n (fr, eager_env)))) = min n 8 \<and>
   (\<forall>b \<in> set (radar_blips (radar_ticks (init_hud 0) (replicate n (fr, eager_env)))).
      200 - int n \<le> lifetime b)"
proof (induction n)
  case 0
  then show ?case by (simp add: init_hud_def)
next
  case (Suc n)
  define s where "s = radar_ticks (init_hud 0) (replicate n (fr, eager_env))"
  from Suc have len: "length (radar_blips s) = min n 8"
    and life: "\<forall>b \<in> set (radar_blips s). 200 - int n \<le> lifetime b"
    by (simp_all add: s_def)
  from Suc.prems life have alive: "\<forall>b \<in> set (radar_blips s). 1 < lifetime b" by fastforce
  have step: "radar_ticks (init_hud 0) (replicate (Suc n) (fr, eager_env)) =
      fst (draw_radar_display s fr eager_env)"
    unfolding s_def using radar_ticks_snoc [of "init_hud 0" "replicate n (fr, eager_env)" fr eager_env]
    by (simp add: replicate_append_same)
  note t = eager_tick [OF alive, of fr]
  from len have "length (radar_blips (fst (draw_radar_display s fr eager_env))) = min (Suc n) 8"
    unfolding t by auto
  moreover from life have "\<forall>b \<in> set (radar_blips (fst (draw_radar_display s fr eager_env))).
      200 - int (Suc n) \<le> lifetime b"
    unfolding t by auto
  ultimately show ?case unfolding step by simp
qed

lemma eager_ticks_count:
  "n \<le> 20 \<Longrightarrow> length (radar_blips (radar_ticks (init_hud 0) (eager_ticks n))) = min n 8"
  using eager_run [of n blank_frame] by (simp add: eager_ticks_def)

text \<open>
  Claim C6: starting from an empty radar, after any sequence of ticks the radar holds
  at most eight contacts; when it holds eight, the spawn is skipped, whatever the
  draws are: the list is left as it is and the tick ends with at most eight contacts.
\<close>

theorem radar_contacts_capped:
  "(radar_blips self = [] \<longrightarrow> length (radar_blips (radar_ticks self ticks)) \<le> 8) \<and>
   (length (radar_blips self) = 8 \<longrightarrow>
      spawn_blip env (radar_blips self) = radar_blips self \<and>
      length (radar_blips (fst (draw_radar_display self fr env))) \<le> 8)"
  by (simp add: radar_ticks_bound spawn_blip_full radar_tick_bound)

theorem radar_contacts_capped_witness:
  "radar_blips (init_hud 0) = [] \<and>
   length (radar_blips (radar_ticks (init_hud 0) (eager_ticks 20))) \<le> 8 \<and>
   length (radar_blips (radar_ticks (init_hud 0) (eager_ticks 20))) = 8 \<and>
   length (radar_blips (radar_ticks (init_hud 0) (eager_ticks 8))) = 8 \<and>
   spawn_blip eager_env (radar_blips (radar_ticks (init_hud 0) (eager_ticks 8))) =
     radar_blips (radar_ticks (init_hud 0) (eager_ticks 8)) \<and>
   length (radar_blips (fst (draw_radar_display (radar_ticks (init_hud 0) (eager_ticks 8))
      blank_frame eager_env))) \<le> 8"
proof -
  have e: "radar_blips (init_hud 0) = []" by (simp add: init_hud_def)
  have l: "length (radar_blips (radar_ticks (init_hud 0) (eager_ticks 8))) = 8"
    by (simp add: eager_ticks_count)
  have m: "length (radar_blips (radar_ticks (init_hud 0) (eager_ticks 20))) = 8"
    by (simp add: eager_ticks_count)
  from e l m
    radar_contacts_capped [of "init_hud 0" "eager_ticks 20"]
    radar_contacts_capped [of "radar_ticks (init_hud 0) (eager_ticks 8)" "[]" eager_env
      blank_frame]
  show ?thesis by simp
qed

lemma randint_range: "a \<le> b \<Longrightarrow> a \<le> randint a b raw \<and> randint a b raw \<le> b"
proof -
  assume "a \<le> b"
  then have pos: "0 < b - a + 1" by simp
  from pos have "0 \<le> raw mod (b - a + 1)" by (rule pos_mod_sign)
  moreover from pos have "raw mod (b - a + 1) < b - a + 1" by (rule pos_mod_bound)
  ultimately show ?thesis by (simp add: randint_def)
qed

text \<open>
  The ranges of a spawned blip: the distance is between 20 and \<open>radar_size // 2 - 30\<close>,
  the angle between 0 and 360, both ends included.
\<close>

lemma spawn_blip_ranges:
  assumes "b \<in> set (spawn_blip env blips)" "b \<notin> set blips"
  shows "0 \<le> angle b \<and> angle b \<le> 360 \<and>
         20 \<le> distance b \<and> distance b \<le> radar_size div 2 - 30 \<and>
         50 \<le> lifetime b \<and> lifetime b \<le> 200"
proof -
  from assms have "b = \<lparr>angle = randint 0 360 (angle_raw env),
          distance = randint 20 (radar_size div 2 - 30) (distance_raw env),
          blip_type = py_choice [Friend, Neutral, Hostile] (type_raw env),
          lifetime = randint 50 200 (lifetime_raw env)\<rparr>"
    by (auto simp add: spawn_blip_def split: if_splits)
  moreover have "(20::int) \<le> radar_size div 2 - 30" by (simp add: radar_size_def)
  ultimately show ?thesis
    using randint_range [of 0 360 "angle_raw env"]
      randint_range [of 20 "radar_size div 2 - 30" "distance_raw env"]
      randint_range [of 50 200 "lifetime_raw env"]
    by simp
qed

lemma spawn_eager: "spawn_blip eager_env [] =
   [\<lparr>angle = 360, distance = 20, blip_type = Friend, lifetime = 200\<rparr>]"
  by (simp add: spawn_blip_def eager_env_def randint_def py_choice_def radar_size_def)

text \<open>
  Claim C7 says that a spawned contact has its angle in the half-open range from 0 to
  360, that is between 0 and 359, and its distance between 20 and \<open>R - 30\<close>. The
  angle is drawn by \<open>random.randint(0, 360)\<close>, which includes 360: when the draw is
  360, the first call of \<open>draw_radar_display\<close> leaves a contact of angle 360 on the
  radar.
\<close>

theorem spawn_angle_reaches_360:
  "radar_blips (fst (draw_radar_display (init_hud 0) blank_frame eager_env)) =
     [\<lparr>angle = 360, distance = 20, blip_type = Friend, lifetime = 199\<rparr>]"
  by (simp add: radar_blips_tick age_blips_start init_hud_def spawn_eager)

section \<open>Properties of the widgets\<close>

lemma py_fmod_small: "0 \<le> a \<Longrightarrow> a < m \<Longrightarrow> py_fmod a m = a"
proof -
  assume a: "0 \<le> a" "a < m"
  then have "0 \<le> a / m" "a / m < 1" by simp_all
  then have "\<lfloor>a / m\<rfloor> = 0" by (simp add: floor_eq_iff)
  then show ?thesis by (simp add: py_fmod_def)
qed

text \<open>A blit that fits records what it shows: two blits that show different values differ.\<close>

lemma blit_fits:
  "region_fits fr x y w h \<Longrightarrow>
   blit fr title x y w h vals = Inr (fr\<lparr>drawn := drawn fr @ [Blit title x y w h vals]\<rparr>)"
  by (simp add: blit_def)

lemma blit_differs:
  assumes "region_fits fr x y w h" "vals \<noteq> vals'"
  shows "blit fr title x y w h vals \<noteq> blit fr title x y w h vals'"
proof
  assume "blit fr title x y w h vals = blit fr title x y w h vals'"
  with assms(1) have "fr\<lparr>drawn := drawn fr @ [Blit title x y w h vals]\<rparr> =
      fr\<lparr>drawn := drawn fr @ [Blit title x y w h vals']\<rparr>"
    by (simp add: blit_fits)
  then have "drawn (fr\<lparr>drawn := drawn fr @ [Blit title x y w h vals]\<rparr>) =
      drawn (fr\<lparr>drawn := drawn fr @ [Blit title x y w h vals']\<rparr>)" by simp
  then have "vals = vals'" by simp
  with assms(2) show False by simp
qed

text \<open>
  The state after \<open>draw_radar_display\<close>, with the spawn and the loop over the blips
  written out: the scan angle advances, a blip is appended when the roll is under 0.1
  and the radar holds fewer than eight, every lifetime drops by one and the blips
  that reach zero are removed.
\<close>

lemma radar_state:
  "fst (draw_radar_display self fr renv) =
     self\<lparr>scan_angle := (scan_angle self + 3) mod 360,
          radar_blips :=
            filter (\<lambda>b. 0 < lifetime b)
              (map (\<lambda>b. b\<lparr>lifetime := lifetime b - 1\<rparr>)
                 (if spawn_roll renv < 1 / 10 \<and> length (radar_blips self) < 8
                  then radar_blips self @
                    [\<lparr>angle = randint 0 360 (angle_raw renv),
                      distance = randint 20 80 (distance_raw renv),
                      blip_type = py_choice [Friend, Neutral, Hostile] (type_raw renv),
                      lifetime = randint 50 200 (lifetime_raw renv)\<rparr>]
                  else radar_blips self))\<rparr>"
  by (simp add: draw_radar_display_def Let_def age_blips_start spawn_blip_def radar_size_def)

text \<open>Whether a blip is spawned shows in the state: the list is one blip longer.\<close>

lemma radar_depends_on_roll:
  assumes "spawn_roll renv < 1 / 10" "\<not> spawn_roll renv' < 1 / 10"
    "length (radar_blips self) < 8"
  shows "fst (draw_radar_display self fr renv) \<noteq> fst (draw_radar_display self fr renv')"
proof
  assume e: "fst (draw_radar_display self fr renv) = fst (draw_radar_display self fr renv')"
  define aged where "aged = filter (\<lambda>b. 0 < lifetime b)
      (map (\<lambda>b. b\<lparr>lifetime := lifetime b - 1\<rparr>) (radar_blips self))"
  have "50 \<le> randint 50 200 (lifetime_raw renv)"
    using randint_range [of 50 200 "lifetime_raw renv"] by simp
  then have "0 < randint 50 200 (lifetime_raw renv) - 1" by simp
  with assms have a: "length (radar_blips (fst (draw_radar_display self fr renv))) =
      Suc (length aged)"
    by (simp add: radar_state aged_def)
  from assms have b: "length (radar_blips (fst (draw_radar_display self fr renv'))) = length aged"
    by (simp add: radar_state aged_def)
  from a b e show False by simp
qed

lemma blank_frame_fits:
  "region_fits blank_frame 20 20 450 180"
  "region_fits blank_frame (fr_width blank_frame - 370) (fr_height blank_frame div 2 - 60) 350 120"
  "region_fits blank_frame (fr_width blank_frame - 340) 20 320 160"
  by (simp_all add: region_fits_def slice_len_def blank_frame_def Let_def)

text \<open>
  Claim C8 says that each of the eight draw routines is a pure function of the frame,
  the telemetry and the animation phase: identical inputs give identical frames, and
  the shared state is left unchanged. \<open>draw_radar_display\<close> assigns
  \<open>self.scan_angle\<close>: called on the initial state, it returns a state whose scan angle
  is 3. \<open>draw_status_panel\<close> reads \<open>datetime.now()\<close>: on the same frame and the same
  state it returns two different frames at midnight and one second later.
\<close>

theorem widgets_not_pure:
  "scan_angle (fst (draw_radar_display (init_hud 0) blank_frame eager_env)) = 3 \<and>
   scan_angle (init_hud 0) = 0 \<and>
   fst (draw_radar_display (init_hud 0) blank_frame eager_env) \<noteq> init_hud 0 \<and>
   snd (draw_status_panel (init_hud 0) blank_frame midnight) \<noteq>
     snd (draw_status_panel (init_hud 0) blank_frame second_past)"
proof -
  have a: "scan_angle (fst (draw_radar_display (init_hud 0) blank_frame eager_env)) = 3"
    by (simp add: draw_radar_display_def Let_def init_hud_def)
  have b: "scan_angle (init_hud 0) = 0" by (simp add: init_hud_def)
  from a b have c: "fst (draw_radar_display (init_hud 0) blank_frame eager_env) \<noteq> init_hud 0"
    by auto
  have d: "snd (draw_status_panel (init_hud 0) blank_frame midnight) \<noteq>
     snd (draw_status_panel (init_hud 0) blank_frame second_past)"
    unfolding draw_status_panel_def Let_def snd_conv
    by (intro blit_differs blank_frame_fits) (simp add: midnight_def second_past_def)
  from a b c d show ?thesis by blast
qed

text \<open>
  Claim C8, amended. \<open>draw_weapon_system\<close>, \<open>draw_communication\<close> and
  \<open>draw_threat_assessment\<close> are pure: they leave the shared state unchanged and the
  frame they return is the input frame with a panel that shows only fields of the
  state (the two weapons, nothing, the threat level), so identical inputs give
  identical frames. \<open>draw_status_panel\<close>, \<open>draw_navigation\<close> and
  \<open>draw_mission_objectives\<close> leave the shared state unchanged, but the frame they
  return changes with the clock that they read: with the time of day shown, with the
  altitude shown, with the seconds elapsed. \<open>draw_radar_display\<close> changes the state:
  the scan angle advances by 3 modulo 360, a contact is appended when the roll is
  under 0.1 and fewer than eight are held, every lifetime drops by one and the
  contacts that reach zero are removed; the state it returns changes with the roll.
  \<open>draw_vital_signs\<close> changes the state: the pulse phase advances by 0.15 modulo
  \<open>2\<pi>\<close>; the frame it returns changes with the random draws. No routine changes any
  other field.
\<close>

theorem widgets_state_effect:
  "fst (draw_status_panel self fr now) = self \<and>
   fst (draw_navigation self fr nav) = self \<and>
   fst (draw_weapon_system self fr) = self \<and>
   fst (draw_communication self fr) = self \<and>
   fst (draw_threat_assessment self fr) = self \<and>
   fst (draw_mission_objectives self fr clock) = self \<and>
   fst (draw_radar_display self fr renv) =
     self\<lparr>scan_angle := (scan_angle self + 3) mod 360,
          radar_blips :=
            filter (\<lambda>b. 0 < lifetime b)
              (map (\<lambda>b. b\<lparr>lifetime := lifetime b - 1\<rparr>)
                 (if spawn_roll renv < 1 / 10 \<and> length (radar_blips self) < 8
                  then radar_blips self @
                    [\<lparr>angle = randint 0 360 (angle_raw renv),
                      distance = randint 20 80 (distance_raw renv),
                      blip_type = py_choice [Friend, Neutral, Hostile] (type_raw renv),
                      lifetime = randint 50 200 (lifetime_raw renv)\<rparr>]
                  else radar_blips self))\<rparr> \<and>
   fst (draw_vital_signs self fr venv) =
     self\<lparr>pulse_animation := py_fmod (pulse_animation self + 15 / 100) (2 * pi)\<rparr> \<and>
   snd (draw_weapon_system self fr) =
     blit fr ''weapons'' 20 (fr_height fr - 140) 280 120
       [Str (weapon_name (weapon_primary self)), Num (ammo (weapon_primary self)),
        Str (weapon_status (weapon_primary self)),
        Str (weapon_name (weapon_secondary self)), Num (ammo (weapon_secondary self)),
        Str (weapon_status (weapon_secondary self))] \<and>
   snd (draw_communication self fr) =
     blit fr ''comms'' (fr_width fr - 240) (fr_height fr - 120) 220 100 [] \<and>
   snd (draw_threat_assessment self fr) =
     blit fr ''threat'' (fr_width fr div 2 - 150) (fr_height fr div 2 - 70) 300 140
       [Col (case map_of [(''LOW'', (0, 255, 0)), (''MEDIUM'', (0, 200, 200)),
                          (''HIGH'', (0, 100, 255)), (''CRITICAL'', (0, 0, 255))]
                    (threat_level (status self)) of
               Some c \<Rightarrow> c | None \<Rightarrow> (0, 255, 0)),
        Str (threat_level (status self))] \<and>
   (region_fits fr 20 20 450 180 \<and>
    (dt_hour now, dt_minute now, dt_second now) \<noteq> (dt_hour now', dt_minute now', dt_second now')
    \<longrightarrow> snd (draw_status_panel self fr now) \<noteq> snd (draw_status_panel self fr now')) \<and>
   (rne (150 + 10 * sin (alt_time nav)) \<noteq> rne (150 + 10 * sin (alt_time nav'))
    \<longrightarrow> snd (draw_navigation self fr nav) \<noteq> snd (draw_navigation self fr nav')) \<and>
   (region_fits fr (fr_width fr - 370) (fr_height fr div 2 - 60) 350 120 \<and>
    py_int (clock - system_boot_time self) \<noteq> py_int (clock' - system_boot_time self)
    \<longrightarrow> snd (draw_mission_objectives self fr clock) \<noteq>
        snd (draw_mission_objectives self fr clock')) \<and>
   (spawn_roll renv < 1 / 10 \<and> \<not> spawn_roll renv' < 1 / 10 \<and> length (radar_blips self) < 8
    \<longrightarrow> fst (draw_radar_display self fr renv) \<noteq> fst (draw_radar_display self fr renv')) \<and>
   (region_fits fr (fr_width fr - 340) 20 320 160 \<and>
    randint (- 1) 1 (o2_raw venv) \<noteq> randint (- 1) 1 (o2_raw venv')
    \<longrightarrow> snd (draw_vital_signs self fr venv) \<noteq> snd (draw_vital_signs self fr venv'))"
proof -
  have s1: "fst (draw_status_panel self fr now) = self"
    by (simp add: draw_status_panel_def Let_def)
  have s2: "fst (draw_navigation self fr nav) = self"
    by (simp add: draw_navigation_def Let_def)
  have s3: "fst (draw_weapon_system self fr) = self"
    by (simp add: draw_weapon_system_def Let_def)
  have s4: "fst (draw_communication self fr) = self"
    by (simp add: draw_communication_def Let_def)
  have s5: "fst (draw_threat_assessment self fr) = self"
    by (simp add: draw_threat_assessment_def Let_def)
  have s6: "fst (draw_mission_objectives self fr clock) = self"
    by (simp add: draw_mission_objectives_def Let_def)
  note s7 = radar_state [of self fr renv]
  have s8: "fst (draw_vital_signs self fr venv) =
     self\<lparr>pulse_animation := py_fmod (pulse_animation self + 15 / 100) (2 * pi)\<rparr>"
    by (simp add: draw_vital_signs_def Let_def)
  have f1: "snd (draw_weapon_system self fr) =
     blit fr ''weapons'' 20 (fr_height fr - 140) 280 120
       [Str (weapon_name (weapon_primary self)), Num (ammo (weapon_primary self)),
        Str (weapon_status (weapon_primary self)),
        Str (weapon_name (weapon_secondary self)), Num (ammo (weapon_secondary self)),
        Str (weapon_status (weapon_secondary self))]"
    by (simp add: draw_weapon_system_def Let_def)
  have f2: "snd (draw_communication self fr) =
     blit fr ''comms'' (fr_width fr - 240) (fr_height fr - 120) 220 100 []"
    by (simp add: draw_communication_def Let_def)
  have f3: "snd (draw_threat_assessment self fr) =
     blit fr ''threat'' (fr_width fr div 2 - 150) (fr_height fr div 2 - 70) 300 140
       [Col (case map_of [(''LOW'', (0, 255, 0)), (''MEDIUM'', (0, 200, 200)),
                          (''HIGH'', (0, 100, 255)), (''CRITICAL'', (0, 0, 255))]
                    (threat_level (status self)) of
               Some c \<Rightarrow> c | None \<Rightarrow> (0, 255, 0)),
        Str (threat_level (status self))]"
    by (simp only: draw_threat_assessment_def Let_def snd_conv)
  have d1: "snd (draw_status_panel self fr now) \<noteq> snd (draw_status_panel self fr now')"
    if "region_fits fr 20 20 450 180 \<and>
      (dt_hour now, dt_minute now, dt_second now) \<noteq>
      (dt_hour now', dt_minute now', dt_second now')"
    unfolding draw_status_panel_def Let_def snd_conv
    using that by (intro blit_differs) auto
  have d2: "snd (draw_navigation self fr nav) \<noteq> snd (draw_navigation self fr nav')"
    if "rne (150 + 10 * sin (alt_time nav)) \<noteq> rne (150 + 10 * sin (alt_time nav'))"
  proof
    assume "snd (draw_navigation self fr nav) = snd (draw_navigation self fr nav')"
    then have "drawn (overlay fr ''compass''
        [Num (fr_width fr div 2), Num 60,
         Num (fr_width fr div 2 +
              py_int (real_of_int (45 - 8) * cos (radians (py_fmod (needle_time nav * 20) 360)))),
         Num (60 + py_int (real_of_int (45 - 8) * sin (radians (py_fmod (needle_time nav * 20) 360)))),
         Num (rne (150 + 10 * sin (alt_time nav)))]) =
      drawn (overlay fr ''compass''
        [Num (fr_width fr div 2), Num 60,
         Num (fr_width fr div 2 +
              py_int (real_of_int (45 - 8) * cos (radians (py_fmod (needle_time nav' * 20) 360)))),
         Num (60 + py_int (real_of_int (45 - 8) * sin (radians (py_fmod (needle_time nav' * 20) 360)))),
         Num (rne (150 + 10 * sin (alt_time nav')))])"
      by (simp add: draw_navigation_def Let_def)
    then have "rne (150 + 10 * sin (alt_time nav)) = rne (150 + 10 * sin (alt_time nav'))"
      by (simp add: overlay_def)
    with that show False by simp
  qed
  have d3: "snd (draw_mission_objectives self fr clock) \<noteq>
        snd (draw_mission_objectives self fr clock')"
    if "region_fits fr (fr_width fr - 370) (fr_height fr div 2 - 60) 350 120 \<and>
      py_int (clock - system_boot_time self) \<noteq> py_int (clock' - system_boot_time self)"
    unfolding draw_mission_objectives_def Let_def snd_conv
    using that by (intro blit_differs) auto
  have d4: "fst (draw_radar_display self fr renv) \<noteq> fst (draw_radar_display self fr renv')"
    if "spawn_roll renv < 1 / 10 \<and> \<not> spawn_roll renv' < 1 / 10 \<and>
      length (radar_blips self) < 8"
    using that by (intro radar_depends_on_roll) simp_all
  have d5: "snd (draw_vital_signs self fr venv) \<noteq> snd (draw_vital_signs self fr venv')"
    if "region_fits fr (fr_width fr - 340) 20 320 160 \<and>
      randint (- 1) 1 (o2_raw venv) \<noteq> randint (- 1) 1 (o2_raw venv')"
    unfolding draw_vital_signs_def Let_def snd_conv
    using that by (intro blit_differs) auto
  from s1 s2 s3 s4 s5 s6 s7 s8 f1 f2 f3 d1 d2 d3 d4 d5 show ?thesis by blast
qed

theorem widgets_state_effect_witness:
  "scan_angle (fst (draw_radar_display (init_hud 0) blank_frame eager_env)) = 3 \<and>
   pulse_animation (fst (draw_vital_signs (init_hud 0) blank_frame some_vitals_env)) = 15 / 100 \<and>
   snd (draw_communication (init_hud 0) blank_frame) =
     Inr (blank_frame\<lparr>drawn := [Blit ''comms'' 1040 600 220 100 []]\<rparr>) \<and>
   region_fits blank_frame 20 20 450 180 \<and>
   (dt_hour midnight, dt_minute midnight, dt_second midnight) \<noteq>
     (dt_hour second_past, dt_minute second_past, dt_second second_past) \<and>
   snd (draw_status_panel (init_hud 0) blank_frame midnight) \<noteq>
     snd (draw_status_panel (init_hud 0) blank_frame second_past) \<and>
   rne (150 + 10 * sin (alt_time \<lparr>needle_time = 0, alt_time = 0\<rparr>)) \<noteq>
     rne (150 + 10 * sin (alt_time \<lparr>needle_time = 0, alt_time = pi / 2\<rparr>)) \<and>
   snd (draw_navigation (init_hud 0) blank_frame \<lparr>needle_time = 0, alt_time = 0\<rparr>) \<noteq>
     snd (draw_navigation (init_hud 0) blank_frame \<lparr>needle_time = 0, alt_time = pi / 2\<rparr>) \<and>
   region_fits blank_frame (fr_width blank_frame - 370) (fr_height blank_frame div 2 - 60)
     350 120 \<and>
   py_int (0 - system_boot_time (init_hud 0)) \<noteq> py_int (1 - system_boot_time (init_hud 0)) \<and>
   snd (draw_mission_objectives (init_hud 0) blank_frame 0) \<noteq>
     snd (draw_mission_objectives (init_hud 0) blank_frame 1) \<and>
   spawn_roll eager_env < 1 / 10 \<and> \<not> spawn_roll idle_env < 1 / 10 \<and>
   length (radar_blips (init_hud 0)) < 8 \<and>
   fst (draw_radar_display (init_hud 0) blank_frame eager_env) \<noteq>
     fst (draw_radar_display (init_hud 0) blank_frame idle_env) \<and>
   region_fits blank_frame (fr_width blank_frame - 340) 20 320 160 \<and>
   randint (- 1) 1 (o2_raw some_vitals_env) \<noteq> randint (- 1) 1 (o2_raw other_vitals_env) \<and>
   snd (draw_vital_signs (init_hud 0) blank_frame some_vitals_env) \<noteq>
     snd (draw_vital_signs (init_hud 0) blank_frame other_vitals_env)"
proof -
  have "(3::real) / 20 < 2 * pi" using pi_ge_two by simp
  then have p: "py_fmod (3 / 20) (2 * pi) = 3 / 20" by (intro py_fmod_small) simp_all
  have s: "scan_angle (init_hud 0) = 0" "pulse_animation (init_hud 0) = 0"
    "radar_blips (init_hud 0) = []" "system_boot_time (init_hud 0) = 0"
    by (simp_all add: init_hud_def)
  note t = widgets_state_effect [of "init_hud 0" blank_frame midnight "\<lparr>needle_time = 0, alt_time = 0\<rparr>" 0
      eager_env some_vitals_env second_past "\<lparr>needle_time = 0, alt_time = pi / 2\<rparr>" 1
      idle_env other_vitals_env]
  from t have "fst (draw_radar_display (init_hud 0) blank_frame eager_env) =
     (init_hud 0)\<lparr>scan_angle := (scan_angle (init_hud 0) + 3) mod 360,
          radar_blips :=
            filter (\<lambda>b. 0 < lifetime b)
              (map (\<lambda>b. b\<lparr>lifetime := lifetime b - 1\<rparr>)
                 (if spawn_roll eager_env < 1 / 10 \<and> length (radar_blips (init_hud 0)) < 8
                  then radar_blips (init_hud 0) @
                    [\<lparr>angle = randint 0 360 (angle_raw eager_env),
                      distance = randint 20 80 (distance_raw eager_env),
                      blip_type = py_choice [Friend, Neutral, Hostile] (type_raw eager_env),
                      lifetime = randint 50 200 (lifetime_raw eager_env)\<rparr>]
                  else radar_blips (init_hud 0)))\<rparr>"
    by blast
  then have a: "scan_angle (fst (draw_radar_display (init_hud 0) blank_frame eager_env)) = 3"
    by (simp add: s)
  from t have "fst (draw_vital_signs (init_hud 0) blank_frame some_vitals_env) =
     (init_hud 0)\<lparr>pulse_animation :=
        py_fmod (pulse_animation (init_hud 0) + 15 / 100) (2 * pi)\<rparr>"
    by blast
  then have b:
    "pulse_animation (fst (draw_vital_signs (init_hud 0) blank_frame some_vitals_env)) = 15 / 100"
    by (simp add: s p)
  from t have "snd (draw_communication (init_hud 0) blank_frame) =
     blit blank_frame ''comms'' (fr_width blank_frame - 240) (fr_height blank_frame - 120)
       220 100 []" by blast
  then have c: "snd (draw_communication (init_hud 0) blank_frame) =
     Inr (blank_frame\<lparr>drawn := [Blit ''comms'' 1040 600 220 100 []]\<rparr>)"
    by (simp add: blit_def region_fits_def slice_len_def blank_frame_def Let_def)
  have h1: "(dt_hour midnight, dt_minute midnight, dt_second midnight) \<noteq>
     (dt_hour second_past, dt_minute second_past, dt_second second_past)"
    by (simp add: midnight_def second_past_def)
  from t blank_frame_fits(1) h1
  have d1: "snd (draw_status_panel (init_hud 0) blank_frame midnight) \<noteq>
     snd (draw_status_panel (init_hud 0) blank_frame second_past)" by blast
  have h2: "rne (150 + 10 * sin (alt_time \<lparr>needle_time = 0, alt_time = 0\<rparr>)) \<noteq>
     rne (150 + 10 * sin (alt_time \<lparr>needle_time = 0, alt_time = pi / 2\<rparr>))"
    using rne_of_int [of 150] rne_of_int [of 160] by simp
  from t h2
  have d2: "snd (draw_navigation (init_hud 0) blank_frame \<lparr>needle_time = 0, alt_time = 0\<rparr>) \<noteq>
     snd (draw_navigation (init_hud 0) blank_frame \<lparr>needle_time = 0, alt_time = pi / 2\<rparr>)"
    by blast
  have h3: "py_int (0 - system_boot_time (init_hud 0)) \<noteq>
     py_int (1 - system_boot_time (init_hud 0))"
    by (simp add: s py_int_def)
  from t blank_frame_fits(2) h3
  have d3: "snd (draw_mission_objectives (init_hud 0) blank_frame 0) \<noteq>
     snd (draw_mission_objectives (init_hud 0) blank_frame 1)" by blast
  have h4: "spawn_roll eager_env < 1 / 10" "\<not> spawn_roll idle_env < 1 / 10"
    "length (radar_blips (init_hud 0)) < 8"
    by (simp_all add: eager_env_def idle_env_def s)
  from t h4
  have d4: "fst (draw_radar_display (init_hud 0) blank_frame eager_env) \<noteq>
     fst (draw_radar_display (init_hud 0) blank_frame idle_env)" by blast
  have h5: "randint (- 1) 1 (o2_raw some_vitals_env) \<noteq>
     randint (- 1) 1 (o2_raw other_vitals_env)"
    by (simp add: some_vitals_env_def other_vitals_env_def randint_def)
  from t blank_frame_fits(3) h5
  have d5: "snd (draw_vital_signs (init_hud 0) blank_frame some_vitals_env) \<noteq>
     snd (draw_vital_signs (init_hud 0) blank_frame other_vitals_env)" by blast
  from a b c blank_frame_fits h1 d1 h2 d2 h3 d3 h4 d4 h5 d5 show ?thesis by blast
qed

end
